theory Spec2Isabelle
  imports Main "HOL-Library.Sublist"
begin

section \<open>Data model of the ZooKeeper K8s charm (src/charm.py)\<close>

text \<open>
  The charm reacts to one event at a time. What it reads and writes is relation data
  (dictionaries from keys to strings), the status of the unit, and a number of
  collaborators (workload, managers, the cluster state helper, the upgrade and TLS
  event handlers) whose code is outside \<^verbatim>\<open>src/\<close>. The relation data and the
  status are the state of the model; every call that has an effect is appended to a
  trace, in the order of the source; every answer of a collaborator is a function of
  the world (state and trace) at the moment the source asks. The handlers raise no
  exception of their own; a call of a collaborator is taken to return, and what the
  observers of an emitted event do is theirs.
\<close>

subsection \<open>Relation data\<close>

type_synonym databag = "string \<rightharpoonup> string"

definition bag_get :: "databag \<Rightarrow> string \<Rightarrow> string" where
  "bag_get d k = (case d k of None \<Rightarrow> [] | Some v \<Rightarrow> v)"

text \<open>
  Modelled from the spec: the \<^verbatim>\<open>update\<close> method of the relation-state objects
  (\<^verbatim>\<open>core/models.py\<close>, not among the sources), the key/value update of the shared
  cluster state store: every pair of the given dictionary is written to the bag, in
  order. A flag is switched off by writing the empty string, which reads as false.
\<close>

definition bag_update :: "databag \<Rightarrow> (string \<times> string) list \<Rightarrow> databag" where
  "bag_update d items = fold (\<lambda>(k, v) m. m(k \<mapsto> v)) items d"

text \<open>Python's \<^verbatim>\<open>str\<close> on a non-negative integer (a unit id): its decimal digits.\<close>

definition digits :: string where
  "digits = ''0123456789''"

fun str :: "nat \<Rightarrow> string" where
  "str n = (if n < 10 then [digits ! n] else str (n div 10) @ [digits ! (n mod 10)])"

declare str.simps [simp del]

subsection \<open>Servers, clients, events, statuses\<close>

record server =
  unit_id :: nat
  component :: "string option"
  data :: databag

record client =
  relation_id :: nat
  client_component :: "string option"
  password :: string
  endpoints :: string
  tls :: string
  username :: string
  database :: string
  chroot :: string
  uris :: string

record SANs =
  sans_ip :: "string list"
  sans_dns :: "string list"

text \<open>
  The events the handlers receive. Only a relation-departed event has the attribute
  \<^verbatim>\<open>departing_unit\<close> (the name of a unit, or nothing).
\<close>

datatype event =
    RelationDepartedEvent "string option"
  | LeaderElectedEvent
  | RelationChangedEvent
  | RelationJoinedEvent
  | ConfigChangedEvent
  | UpdateStatusEvent
  | SecretChangedEvent

fun departing_unit :: "event \<Rightarrow> string option" where
  "departing_unit (RelationDepartedEvent u) = u"
| "departing_unit _ = None"

fun is_departed_or_elected :: "event \<Rightarrow> bool" where
  "is_departed_or_elected (RelationDepartedEvent _) = True"
| "is_departed_or_elected LeaderElectedEvent = True"
| "is_departed_or_elected _ = False"

text \<open>
  The members of the enumeration \<^verbatim>\<open>Status\<close> that the charm names, and the
  others, which the cluster state helper may return. The status object of each member
  (the table of \<^verbatim>\<open>literals.py\<close>) is a parameter, \<open>status_value\<close> below.
\<close>

datatype Status =
    ACTIVE
  | NO_PEER_RELATION
  | CONTAINER_NOT_CONNECTED
  | NO_PASSWORDS
  | NOT_ALL_RELATED
  | NOT_UNIT_TURN
  | SERVICE_NOT_RUNNING
  | SERVICE_UNHEALTHY
  | SERVICE_UNAVAILABLE
  | OtherStatus string

datatype StatusBase =
    ActiveStatus string
  | BlockedStatus string
  | MaintenanceStatus string
  | WaitingStatus string

fun is_ActiveStatus :: "StatusBase \<Rightarrow> bool" where
  "is_ActiveStatus (ActiveStatus _) = True"
| "is_ActiveStatus _ = False"

datatype ExposeExternal = FALSE | NODEPORT | LOADBALANCER

subsection \<open>Effects\<close>

datatype action =
    Defer
  | SetStatus Status
  | SetWorkloadVersion
  | RemoveService
  | ApplyNodeportService
  | ApplyLoadbalancerService
  | EmitCertificateExpiring string
  | EmitAcquireLock
  | CallConfigChanged
  | CallUpdateCluster
  | WorkloadStart
  | WorkloadRestart
  | Sleep nat
  | SetZookeeperMyid
  | SetServerJvmflags
  | SetZookeeperDynamicProperties
  | SetZookeeperProperties
  | SetJaasConfig
  | SetClientJaasConfig
  | SetPrivateKey
  | SetCa
  | SetChain
  | SetCertificate
  | SetBundle
  | SetTruststore
  | SetP12Keystore
  | UnitUpdate "(string \<times> string) list"
  | ClusterUpdate "(string \<times> string) list"
  | ClientUpdate nat "(string \<times> string) list"

record world =
  cluster :: databag
  unit_server :: server
  peer_servers :: "server list"
  client_data :: "nat \<Rightarrow> databag"
  unit_status :: StatusBase
  trace :: "action list"

text \<open>
  The collaborators. \<open>unit_name\<close> is the name of this unit, \<open>SUBSTRATE\<close> the
  literal of that name, \<open>status_value\<close> the status object of each member of
  \<^verbatim>\<open>Status\<close>; the other fields are what a property or a call returns in a given
  world. \<open>update_cluster\<close> is the membership mapping that the quorum manager
  computes, from unit ids to their marker.
\<close>

record env =
  unit_name :: string
  SUBSTRATE :: string
  status_value :: "Status \<Rightarrow> StatusBase"
  is_leader :: "world \<Rightarrow> bool"
  container_can_connect :: "world \<Rightarrow> bool"
  peer_relation :: "world \<Rightarrow> bool"
  is_restore_in_progress :: "world \<Rightarrow> bool"
  upgrade_idle :: "world \<Rightarrow> bool"
  expose_external :: "world \<Rightarrow> ExposeExternal"
  state_endpoints :: "world \<Rightarrow> string"
  materialized_sans :: "world \<Rightarrow> SANs option"
  build_sans :: "world \<Rightarrow> SANs"
  config_changed :: "world \<Rightarrow> bool"
  alive :: "world \<Rightarrow> bool"
  healthy :: "world \<Rightarrow> bool"
  internal_user_credentials :: "world \<Rightarrow> (string \<times> string) list"
  all_units_related :: "world \<Rightarrow> bool"
  next_server :: "world \<Rightarrow> server option"
  cluster_tls :: "world \<Rightarrow> bool"
  ca_cert :: "world \<Rightarrow> string"
  init_leader :: "world \<Rightarrow> server option"
  stale_quorum :: "world \<Rightarrow> bool"
  state_healthy :: "world \<Rightarrow> bool"
  update_cluster :: "world \<Rightarrow> (nat \<times> string) list"
  stable :: "world \<Rightarrow> Status"
  ready :: "world \<Rightarrow> Status"
  clients :: "world \<Rightarrow> client list"
  current_jaas :: "world \<Rightarrow> string list"
  plan_services :: "world \<Rightarrow> string"
  layer_services :: "world \<Rightarrow> string"
  rotate_passwords :: "world \<Rightarrow> bool"

section \<open>What the charm reads back from relation data\<close>

text \<open>
  Modelled from the spec: the property \<^verbatim>\<open>started\<close> of a server
  (\<^verbatim>\<open>core/models.py\<close>, not among the sources), the per-node startedFlag: the
  entry \<^verbatim>\<open>state\<close> that \<^verbatim>\<open>init_server\<close> writes.
\<close>

definition started :: "server \<Rightarrow> bool" where
  "started s = (bag_get (data s) ''state'' = ''started'')"

text \<open>
  Modelled from the spec: the property \<^verbatim>\<open>unified\<close> of a server
  (\<^verbatim>\<open>core/models.py\<close>, not among the sources), the per-node unifiedFlag: the
  entry \<^verbatim>\<open>unified\<close>, true when it is not empty.
\<close>

definition unified :: "server \<Rightarrow> bool" where
  "unified s = (bag_get (data s) ''unified'' \<noteq> [])"

text \<open>
  Modelled from the spec: the property \<^verbatim>\<open>quorum\<close> of a server
  (\<^verbatim>\<open>core/models.py\<close>, not among the sources), the per-node declared quorumMode:
  the entry \<^verbatim>\<open>quorum\<close>.
\<close>

definition server_quorum :: "server \<Rightarrow> string" where
  "server_quorum s = bag_get (data s) ''quorum''"

text \<open>
  Modelled from the spec: the property \<^verbatim>\<open>certificate\<close> of a server
  (\<^verbatim>\<open>core/models.py\<close>, not among the sources), the stored certificate
  reference: the entry \<^verbatim>\<open>certificate\<close>.
\<close>

definition certificate :: "server \<Rightarrow> string" where
  "certificate s = bag_get (data s) ''certificate''"

text \<open>
  Modelled from the spec: the property \<^verbatim>\<open>switching_encryption\<close> of the cluster
  (\<^verbatim>\<open>core/models.py\<close>, not among the sources), the cluster-wide flag
  switchingEncryption: the entry \<^verbatim>\<open>switching-encryption\<close>, true when it is
  not empty.
\<close>

definition switching_encryption :: "databag \<Rightarrow> bool" where
  "switching_encryption c = (bag_get c ''switching-encryption'' \<noteq> [])"

text \<open>
  Modelled from the spec: the property \<^verbatim>\<open>quorum\<close> of the cluster
  (\<^verbatim>\<open>core/models.py\<close>, not among the sources), the cluster-wide target
  quorumMode: the entry \<^verbatim>\<open>quorum\<close>.
\<close>

definition cluster_quorum :: "databag \<Rightarrow> string" where
  "cluster_quorum c = bag_get c ''quorum''"

text \<open>
  Modelled from the spec: the property \<^verbatim>\<open>servers\<close> of the cluster state
  (\<^verbatim>\<open>core/cluster.py\<close>, not among the sources), the known nodes: this unit
  and its peers.
\<close>

definition servers :: "world \<Rightarrow> server list" where
  "servers w = unit_server w # peer_servers w"

text \<open>
  Modelled from the spec: the property \<^verbatim>\<open>all_units_unified\<close> of the cluster
  state (\<^verbatim>\<open>core/cluster.py\<close>, not among the sources): every known node reports
  unifiedFlag true.
\<close>

definition all_units_unified :: "world \<Rightarrow> bool" where
  "all_units_unified w = list_all unified (servers w)"

text \<open>
  Modelled from the spec: the property \<^verbatim>\<open>all_units_quorum\<close> of the cluster
  state (\<^verbatim>\<open>core/cluster.py\<close>, not among the sources): every node's reported
  quorumMode equals the cluster-wide target.
\<close>

definition all_units_quorum :: "world \<Rightarrow> bool" where
  "all_units_quorum w =
     list_all (\<lambda>s. server_quorum s = cluster_quorum (cluster w)) (servers w)"

text \<open>
  Modelled from the spec: \<^verbatim>\<open>get_current_sans\<close> of the TLS manager
  (\<^verbatim>\<open>managers/tls.py\<close>, not among the sources), the current
  subject-alternative-names or absent: absent while the stored certificate reference
  is cleared (clearing it is what keeps one renewal in flight), otherwise the names of
  the materialized certificate, which the collaborator reports.
\<close>

definition get_current_sans :: "env \<Rightarrow> world \<Rightarrow> SANs option" where
  "get_current_sans e w =
     (if certificate (unit_server w) = [] then None else materialized_sans e w)"

section \<open>Effects on the world\<close>

definition emit :: "action \<Rightarrow> world \<Rightarrow> world" where
  "emit a w = w\<lparr>trace := trace w @ [a]\<rparr>"

definition emits :: "action list \<Rightarrow> world \<Rightarrow> world" where
  "emits as w = w\<lparr>trace := trace w @ as\<rparr>"

text \<open>\<^verbatim>\<open>event.defer()\<close>: the event is queued for redelivery.\<close>

definition defer_event :: "world \<Rightarrow> world" where
  "defer_event w = emit Defer w"

definition write_unit_server :: "(string \<times> string) list \<Rightarrow> world \<Rightarrow> world" where
  "write_unit_server items w =
     emit (UnitUpdate items)
       (w\<lparr>unit_server := (unit_server w)\<lparr>data := bag_update (data (unit_server w)) items\<rparr>\<rparr>)"

definition write_cluster :: "(string \<times> string) list \<Rightarrow> world \<Rightarrow> world" where
  "write_cluster items w =
     emit (ClusterUpdate items) (w\<lparr>cluster := bag_update (cluster w) items\<rparr>)"

definition write_client :: "client \<Rightarrow> (string \<times> string) list \<Rightarrow> world \<Rightarrow> world" where
  "write_client c items w =
     emit (ClientUpdate (relation_id c) items)
       (w\<lparr>client_data := (client_data w)
             (relation_id c := bag_update (client_data w (relation_id c)) items)\<rparr>)"

text \<open>The effects of a handler: what it appended to the trace.\<close>

definition emitted :: "world \<Rightarrow> world \<Rightarrow> action list" where
  "emitted w w' = drop (length (trace w)) (trace w')"

section \<open>The handlers of src/charm.py\<close>

text \<open>\<^verbatim>\<open>_set_status\<close> (lines 572-578).\<close>

definition set_status :: "env \<Rightarrow> Status \<Rightarrow> world \<Rightarrow> world" where
  "set_status e key w = emit (SetStatus key) (w\<lparr>unit_status := status_value e key\<rparr>)"

text \<open>\<^verbatim>\<open>update_external_services\<close> (lines 182-201).\<close>

definition update_external_services :: "env \<Rightarrow> world \<Rightarrow> world" where
  "update_external_services e w =
     (if SUBSTRATE e \<noteq> ''k8s'' \<or> \<not> is_leader e w then w
      else case expose_external e w of
             FALSE \<Rightarrow> emit RemoveService w
           | NODEPORT \<Rightarrow> emit ApplyNodeportService (set_status e SERVICE_UNAVAILABLE w)
           | LOADBALANCER \<Rightarrow>
               emit ApplyLoadbalancerService (set_status e SERVICE_UNAVAILABLE w))"

text \<open>
  The startup-order test of \<^verbatim>\<open>init_server\<close> (lines 417-422): the next server
  exists, it and this unit have a component, and the names of the components differ.
\<close>

definition not_unit_turn :: "env \<Rightarrow> world \<Rightarrow> bool" where
  "not_unit_turn e w =
     (case next_server e w of
        None \<Rightarrow> False
      | Some ns \<Rightarrow>
          (case component ns of
             None \<Rightarrow> False
           | Some next_name \<Rightarrow>
               (case component (unit_server w) of
                  None \<Rightarrow> False
                | Some unit_component_name \<Rightarrow> next_name \<noteq> unit_component_name)))"

text \<open>\<^verbatim>\<open>init_server\<close> (lines 399-469).\<close>

definition init_server :: "env \<Rightarrow> world \<Rightarrow> world" where
  "init_server e w =
     (if internal_user_credentials e w = [] then set_status e NO_PASSWORDS w
      else if \<not> all_units_related e w then set_status e NOT_ALL_RELATED w
      else if not_unit_turn e w then set_status e NOT_UNIT_TURN w
      else
        let w1 = emits [SetZookeeperMyid, SetServerJvmflags, SetZookeeperDynamicProperties,
                        SetZookeeperProperties, SetJaasConfig, SetClientJaasConfig] w;
            w2 = (if cluster_tls e w1 \<and> certificate (unit_server w1) \<noteq> [] \<and> ca_cert e w1 \<noteq> []
                  then emits [SetPrivateKey, SetCa, SetChain, SetCertificate, SetBundle,
                              SetTruststore, SetP12Keystore] w1
                  else w1);
            w3 = emit SetWorkloadVersion (emit WorkloadStart w2)
        in write_unit_server
             [(''state'', ''started''),
              (''unified'', if switching_encryption (cluster w3) then ''true'' else ''''),
              (''quorum'', cluster_quorum (cluster w3))] w3)"

text \<open>\<^verbatim>\<open>disconnect_clients\<close> (lines 525-531).\<close>

fun disconnect_each :: "client list \<Rightarrow> world \<Rightarrow> world" where
  "disconnect_each [] w = w"
| "disconnect_each (c # cs) w = disconnect_each cs (write_client c [(''endpoints'', '''')] w)"

definition disconnect_clients :: "env \<Rightarrow> world \<Rightarrow> world" where
  "disconnect_clients e w = (if \<not> is_leader e w then w else disconnect_each (clients e w) w)"

text \<open>
  \<^verbatim>\<open>update_client_data\<close> (lines 533-570). The loop over the clients skips a
  client whose password is empty or is not a substring of the joined jaas file.
\<close>

definition client_acls_not_set :: "env \<Rightarrow> world \<Rightarrow> client \<Rightarrow> bool" where
  "client_acls_not_set e w c =
     (password c = [] \<or> \<not> sublist (password c) (concat (current_jaas e w)))"

definition client_items :: "client \<Rightarrow> (string \<times> string) list" where
  "client_items c =
     [(''endpoints'', endpoints c), (''tls'', tls c), (''username'', username c),
      (''password'', password c), (''database'', database c), (''chroot'', chroot c),
      (''uris'', uris c)]"

fun update_each_client :: "env \<Rightarrow> client list \<Rightarrow> world \<Rightarrow> world" where
  "update_each_client e [] w = w"
| "update_each_client e (c # cs) w =
     (if client_acls_not_set e w c then update_each_client e cs w
      else update_each_client e cs (write_client c (client_items c) w))"

definition update_client_data :: "env \<Rightarrow> world \<Rightarrow> world" where
  "update_client_data e w =
     (if \<not> is_leader e w then w
      else
        let w1 = set_status e (ready e w) w
        in if \<not> is_ActiveStatus (unit_status w1) then w1
           else update_each_client e (clients e w1) w1)"

text \<open>
  \<^verbatim>\<open>update_quorum\<close> (lines 471-523), in the blocks of the source: the
  initial leader is marked added (lines 482-483); the membership is recomputed and
  written back (lines 485-497); the quorum encryption is advanced (lines 507-521).
\<close>

definition add_init_leader :: "env \<Rightarrow> world \<Rightarrow> world" where
  "add_init_leader e w =
     (case init_leader e w of
        None \<Rightarrow> w
      | Some leader \<Rightarrow>
          if started leader then write_cluster [(str (unit_id leader), ''added'')] w else w)"

text \<open>
  Modelled from the spec: the dictionary that \<^verbatim>\<open>update_cluster\<close> of the quorum
  manager returns (\<^verbatim>\<open>managers/quorum.py\<close>, not among the sources) is the new
  membership mapping, from node ids to their marker; as in line 483, the key of a node
  is its unit id in decimal.
\<close>

definition update_members :: "env \<Rightarrow> event \<Rightarrow> world \<Rightarrow> world" where
  "update_members e event w =
     (if stale_quorum e w \<or> is_departed_or_elected event \<or> state_healthy e w
      then
        let updated_servers = map (\<lambda>(i, v). (str i, v)) (update_cluster e w)
        in write_cluster updated_servers (emit CallUpdateCluster w)
      else w)"

definition switch_quorum :: "env \<Rightarrow> world \<Rightarrow> world" where
  "switch_quorum e w =
     (if all_units_unified w
      then
        let w1 = (if cluster_tls e w then write_cluster [(''quorum'', ''ssl'')] w
                  else write_cluster [(''quorum'', ''non-ssl'')] w)
        in if all_units_quorum w1 then write_cluster [(''switching-encryption'', '''')] w1
           else w1
      else w)"

definition update_quorum :: "env \<Rightarrow> event \<Rightarrow> world \<Rightarrow> world" where
  "update_quorum e event w =
     (if \<not> is_leader e w \<or> departing_unit event = Some (unit_name e) then w
      else
        let w1 = add_init_leader e w;
            w2 = update_members e event w1;
            w3 = set_status e (stable e w2) w2
        in if \<not> is_ActiveStatus (unit_status w3) then w3
           else update_client_data e (switch_quorum e w3))"

text \<open>\<^verbatim>\<open>_restart\<close> (lines 368-395), the callback of the rolling-restart lock.\<close>

definition restart :: "env \<Rightarrow> world \<Rightarrow> world" where
  "restart e w =
     (let w1 = set_status e (stable e w) w
      in if \<not> is_ActiveStatus (unit_status w1) then defer_event w1
         else
           let w2 = (if plan_services e w1 \<noteq> layer_services e w1 then emit WorkloadStart w1
                     else emit WorkloadRestart w1);
               w3 = emit (Sleep 5) w2
           in write_unit_server
                [(''unified'', if switching_encryption (cluster w3) then ''true'' else ''''),
                 (''quorum'', cluster_quorum (cluster w3)),
                 (''password-rotated'', if rotate_passwords e w3 then ''true'' else '''')] w3)"

text \<open>
  \<^verbatim>\<open>_on_cluster_relation_changed\<close> (lines 224-326), the reconciliation. The
  handler is written in two parts. The first part (lines 226-300) ends the handler at
  one of its returns, or goes on; \<open>sans_changed\<close> is the comparison of the
  subject-alternative-names (lines 265-275), with the symmetric difference of the sets.
  The second part (lines 302-326) is the restart request and the final status.
\<close>

datatype flow = Return world | Continue world

definition sym_diff :: "'a set \<Rightarrow> 'a set \<Rightarrow> 'a set" where
  "sym_diff A B = (A - B) \<union> (B - A)"

definition sans_changed :: "env \<Rightarrow> world \<Rightarrow> bool" where
  "sans_changed e w =
     (let current_sans = get_current_sans e w;
          current_sans_ip = (case current_sans of None \<Rightarrow> {} | Some s \<Rightarrow> set (sans_ip s));
          expected_sans_ip =
            (case current_sans of None \<Rightarrow> {} | Some s \<Rightarrow> set (sans_ip (build_sans e w)));
          sans_ip_changed = sym_diff current_sans_ip expected_sans_ip;
          current_sans_dns = (case current_sans of None \<Rightarrow> {} | Some s \<Rightarrow> set (sans_dns s));
          expected_sans_dns =
            (case current_sans of None \<Rightarrow> {} | Some s \<Rightarrow> set (sans_dns (build_sans e w)));
          sans_dns_changed = sym_diff current_sans_dns expected_sans_dns
      in sans_ip_changed \<noteq> {} \<or> sans_dns_changed \<noteq> {})"

definition reconcile_until_restart :: "env \<Rightarrow> event \<Rightarrow> world \<Rightarrow> flow" where
  "reconcile_until_restart e event w =
     (if \<not> container_can_connect e w
      then Return (defer_event (set_status e CONTAINER_NOT_CONNECTED w))
      else if \<not> peer_relation e w then Return (set_status e NO_PEER_RELATION w)
      else if is_restore_in_progress e w then Return w
      else if \<not> upgrade_idle e w then Return (defer_event w)
      else
        let w1 = (if \<not> started (unit_server w) then init_server e w else w);
            w2 = update_external_services e w1
        in if state_endpoints e w2 = [] then Return (defer_event (disconnect_clients e w2))
           else if sans_changed e w2
           then Return (write_unit_server [(''certificate'', '''')]
                          (emit (EmitCertificateExpiring (certificate (unit_server w2))) w2))
           else
             let w3 = update_quorum e event w2
             in if departing_unit event = Some (unit_name e) then Return w3
                else Continue w3)"

text \<open>
  The condition of lines 305-309. The call of \<^verbatim>\<open>config_changed\<close> comes
  first and writes the configuration files; the other three are read after it.
\<close>

definition restart_needed :: "env \<Rightarrow> world \<Rightarrow> bool" where
  "restart_needed e w =
     (let changed = config_changed e w;
          w1 = emit CallConfigChanged w
      in (changed \<or> switching_encryption (cluster w1))
         \<and> started (unit_server w1) \<and> upgrade_idle e w1)"

definition reconcile_from_restart :: "env \<Rightarrow> world \<Rightarrow> world" where
  "reconcile_from_restart e w =
     (let needed = restart_needed e w;
          w1 = emit CallConfigChanged w;
          w2 = (if needed then emit EmitAcquireLock w1 else w1);
          w3 = (if switching_encryption (cluster w2) \<and> length (servers w2) = 1
                then defer_event w2 else w2)
      in if \<not> alive e w3 then set_status e SERVICE_NOT_RUNNING w3
         else if started (unit_server w3) \<and> \<not> healthy e w3
         then set_status e SERVICE_UNHEALTHY w3
         else set_status e ACTIVE (emit SetWorkloadVersion w3))"

definition on_cluster_relation_changed :: "env \<Rightarrow> event \<Rightarrow> world \<Rightarrow> world" where
  "on_cluster_relation_changed e event w =
     (case reconcile_until_restart e event w of
        Return w' \<Rightarrow> w'
      | Continue w' \<Rightarrow> reconcile_from_restart e w')"

section \<open>Notions used to state the properties\<close>


fun is_renewal :: "action \<Rightarrow> bool" where
  "is_renewal (EmitCertificateExpiring _) = True"
| "is_renewal _ = False"

fun is_workload_restart :: "action \<Rightarrow> bool" where
  "is_workload_restart WorkloadStart = True"
| "is_workload_restart WorkloadRestart = True"
| "is_workload_restart _ = False"


fun is_client_update :: "action \<Rightarrow> bool" where
  "is_client_update (ClientUpdate _ _) = True"
| "is_client_update _ = False"

text \<open>
  The actions that every step of the reconciliation may take: all but a deferral, a
  renewal request, a request of the restart lock, a restart of the workload and a
  delay.
\<close>

fun is_routine :: "action \<Rightarrow> bool" where
  "is_routine Defer = False"
| "is_routine (EmitCertificateExpiring _) = False"
| "is_routine EmitAcquireLock = False"
| "is_routine WorkloadRestart = False"
| "is_routine (Sleep _) = False"
| "is_routine _ = True"

text \<open>
  The answers of the collaborators in a world, and the collaborators that give the
  same answers in every world: nothing outside the charm changes, and what the charm
  writes does not change an answer.
\<close>

definition answers where
  "answers e w =
     ((is_leader e w, container_can_connect e w, peer_relation e w,
       is_restore_in_progress e w, upgrade_idle e w, expose_external e w,
       state_endpoints e w),
      (materialized_sans e w, build_sans e w, config_changed e w, alive e w, healthy e w,
       internal_user_credentials e w, all_units_related e w, next_server e w),
      (cluster_tls e w, ca_cert e w, init_leader e w, stale_quorum e w, state_healthy e w,
       update_cluster e w, stable e w, ready e w),
      (clients e w, current_jaas e w, plan_services e w, layer_services e w,
       rotate_passwords e w))"

definition steady :: "env \<Rightarrow> bool" where
  "steady e = (\<forall>w v. answers e w = answers e v)"

text \<open>A step from \<open>w\<close> to \<open>w'\<close> that only appends actions of one kind to the trace.\<close>

definition appends :: "(action \<Rightarrow> bool) \<Rightarrow> world \<Rightarrow> world \<Rightarrow> bool" where
  "appends P w w' = (\<exists>xs. trace w' = trace w @ xs \<and> list_all P xs)"

section \<open>Example worlds\<close>

text \<open>
  A unit \<^verbatim>\<open>zookeeper-k8s/0\<close> that leads a cluster of one: everything is
  reachable and healthy, nothing is pending. The examples below change one answer or
  one entry at a time.
\<close>

definition status_table :: "Status \<Rightarrow> StatusBase" where
  "status_table k = (case k of ACTIVE \<Rightarrow> ActiveStatus [] | _ \<Rightarrow> MaintenanceStatus ''waiting'')"

definition calm_env :: env where
  "calm_env =
     \<lparr>unit_name = ''zookeeper-k8s/0'',
      SUBSTRATE = ''k8s'',
      status_value = status_table,
      is_leader = (\<lambda>_. True),
      container_can_connect = (\<lambda>_. True),
      peer_relation = (\<lambda>_. True),
      is_restore_in_progress = (\<lambda>_. False),
      upgrade_idle = (\<lambda>_. True),
      expose_external = (\<lambda>_. FALSE),
      state_endpoints = (\<lambda>_. ''zookeeper-k8s-0:2181''),
      materialized_sans = (\<lambda>_. Some \<lparr>sans_ip = [''10.0.0.1''], sans_dns = [''zookeeper-k8s-0'']\<rparr>),
      build_sans = (\<lambda>_. \<lparr>sans_ip = [''10.0.0.1''], sans_dns = [''zookeeper-k8s-0'']\<rparr>),
      config_changed = (\<lambda>_. False),
      alive = (\<lambda>_. True),
      healthy = (\<lambda>_. True),
      internal_user_credentials = (\<lambda>_. [(''super'', ''s3cret''), (''sync'', ''s4cret'')]),
      all_units_related = (\<lambda>_. True),
      next_server = (\<lambda>_. None),
      cluster_tls = (\<lambda>_. False),
      ca_cert = (\<lambda>_. []),
      init_leader = (\<lambda>_. None),
      stale_quorum = (\<lambda>_. False),
      state_healthy = (\<lambda>_. False),
      update_cluster = (\<lambda>_. [(0, ''added'')]),
      stable = (\<lambda>_. ACTIVE),
      ready = (\<lambda>_. ACTIVE),
      clients = (\<lambda>_. []),
      current_jaas = (\<lambda>_. [''user_super='', ''s3cret'', ''user_relation-7='', ''pa55word'']),
      plan_services = (\<lambda>_. ''zookeeper''),
      layer_services = (\<lambda>_. ''zookeeper''),
      rotate_passwords = (\<lambda>_. False)\<rparr>"

definition follower_env :: env where
  "follower_env = calm_env\<lparr>is_leader := (\<lambda>_. False)\<rparr>"

definition new_unit :: server where
  "new_unit = \<lparr>unit_id = 0, component = Some ''zookeeper-k8s/0'', data = Map.empty\<rparr>"

definition started_unit :: server where
  "started_unit =
     \<lparr>unit_id = 0, component = Some ''zookeeper-k8s/0'',
      data = [''state'' \<mapsto> ''started'', ''quorum'' \<mapsto> ''non-ssl'']\<rparr>"

definition fresh_world :: world where
  "fresh_world =
     \<lparr>cluster = [''quorum'' \<mapsto> ''non-ssl''],
      unit_server = new_unit,
      peer_servers = [],
      client_data = (\<lambda>_. Map.empty),
      unit_status = MaintenanceStatus ''installing'',
      trace = []\<rparr>"

definition running_world :: world where
  "running_world = fresh_world\<lparr>unit_server := started_unit\<rparr>"

definition kafka_client :: client where
  "kafka_client =
     \<lparr>relation_id = 7, client_component = Some ''kafka'', password = ''pa55word'',
      endpoints = ''zookeeper-k8s-0:2181'', tls = ''disabled'', username = ''relation-7'',
      database = ''/kafka'', chroot = ''/kafka'', uris = ''zookeeper-k8s-0:2181/kafka''\<rparr>"

text \<open>
  The same unit while the cluster leaves encrypted quorum traffic: the migration flag
  is set, the unit runs unified and has restarted with the unencrypted quorum.
\<close>

definition migrating_world :: world where
  "migrating_world =
     running_world
       \<lparr>cluster := [''quorum'' \<mapsto> ''ssl'', ''switching-encryption'' \<mapsto> ''true''],
        unit_server :=
          \<lparr>unit_id = 0, component = Some ''zookeeper-k8s/0'',
           data = [''state'' \<mapsto> ''started'', ''unified'' \<mapsto> ''true'',
                   ''quorum'' \<mapsto> ''non-ssl'']\<rparr>\<rparr>"

text \<open>
  A follower that runs with the certificate \<^verbatim>\<open>cert-1\<close>, issued for the address
  10.0.0.1, after its address has changed to 10.0.0.2.
\<close>

definition moved_env :: env where
  "moved_env =
     follower_env
       \<lparr>build_sans := (\<lambda>_. \<lparr>sans_ip = [''10.0.0.2''], sans_dns = [''zookeeper-k8s-0'']\<rparr>)\<rparr>"

definition certified_world :: world where
  "certified_world =
     running_world
       \<lparr>unit_server :=
          \<lparr>unit_id = 0, component = Some ''zookeeper-k8s/0'',
           data = [''state'' \<mapsto> ''started'', ''quorum'' \<mapsto> ''non-ssl'',
                   ''certificate'' \<mapsto> ''cert-1'']\<rparr>\<rparr>"

text \<open>
  The leader with one related client application, whose password is in the jaas file;
  and the same while the cluster is not yet ready.
\<close>

definition serving_env :: env where
  "serving_env = calm_env\<lparr>clients := (\<lambda>_. [kafka_client])\<rparr>"

definition unready_env :: env where
  "unready_env = serving_env\<lparr>ready := (\<lambda>_. OtherStatus ''NOT_ALL_ADDED'')\<rparr>"


section \<open>Basic facts\<close>

subsection \<open>Decimal strings and data bags\<close>

lemma length_digits: "length digits = 10"
  by (simp add: digits_def)

lemma str_digits: "set (str n) \<subseteq> set digits"
proof (induction n rule: str.induct)
  case (1 n)
  show ?case
  proof (cases "n < 10")
    case True
    then have "digits ! n \<in> set digits" by (simp add: length_digits)
    with True show ?thesis by (subst str.simps) simp
  next
    case False
    have "digits ! (n mod 10) \<in> set digits" by (simp add: length_digits)
    with False 1 show ?thesis by (subst str.simps) simp
  qed
qed

lemma str_not_empty: "str n \<noteq> []"
  by (subst str.simps) simp

lemma str_hd_digit: "hd (str n) \<in> set digits"
  using str_digits [of n] str_not_empty [of n] by (cases "str n") auto

lemma str_neq_quorum: "str n \<noteq> ''quorum''"
  using str_hd_digit [of n] by (auto simp: digits_def)

lemma str_neq_switching: "str n \<noteq> ''switching-encryption''"
  using str_hd_digit [of n] by (auto simp: digits_def)

lemma bag_update_Nil [simp]: "bag_update d [] = d"
  by (simp add: bag_update_def)

lemma bag_update_Cons [simp]: "bag_update d ((k, v) # items) = bag_update (d(k \<mapsto> v)) items"
  by (simp add: bag_update_def)


lemma bag_update_other: "k \<notin> fst ` set items \<Longrightarrow> bag_update d items k = d k"
  by (induction items arbitrary: d) auto

lemma bag_get_update_other:
  "k \<notin> fst ` set items \<Longrightarrow> bag_get (bag_update d items) k = bag_get d k"
  by (simp add: bag_get_def bag_update_other)

lemma member_keys_other:
  "k \<noteq> [] \<Longrightarrow> hd k \<notin> set digits \<Longrightarrow> k \<notin> fst ` set (map (\<lambda>(i, v). (str i, v)) ms)"
  using str_hd_digit by (induction ms) auto

subsection \<open>What each effect changes\<close>

lemma emit_simps [simp]:
  "trace (emit a w) = trace w @ [a]"
  "cluster (emit a w) = cluster w"
  "unit_server (emit a w) = unit_server w"
  "peer_servers (emit a w) = peer_servers w"
  "client_data (emit a w) = client_data w"
  "unit_status (emit a w) = unit_status w"
  by (simp_all add: emit_def)

lemma emits_simps [simp]:
  "trace (emits as w) = trace w @ as"
  "cluster (emits as w) = cluster w"
  "unit_server (emits as w) = unit_server w"
  "peer_servers (emits as w) = peer_servers w"
  "client_data (emits as w) = client_data w"
  "unit_status (emits as w) = unit_status w"
  by (simp_all add: emits_def)

lemma defer_event_simps [simp]:
  "trace (defer_event w) = trace w @ [Defer]"
  "cluster (defer_event w) = cluster w"
  "unit_server (defer_event w) = unit_server w"
  "peer_servers (defer_event w) = peer_servers w"
  "client_data (defer_event w) = client_data w"
  "unit_status (defer_event w) = unit_status w"
  by (simp_all add: defer_event_def)

lemma set_status_simps [simp]:
  "trace (set_status e k w) = trace w @ [SetStatus k]"
  "cluster (set_status e k w) = cluster w"
  "unit_server (set_status e k w) = unit_server w"
  "peer_servers (set_status e k w) = peer_servers w"
  "client_data (set_status e k w) = client_data w"
  "unit_status (set_status e k w) = status_value e k"
  by (simp_all add: set_status_def)

lemma write_cluster_simps [simp]:
  "trace (write_cluster items w) = trace w @ [ClusterUpdate items]"
  "cluster (write_cluster items w) = bag_update (cluster w) items"
  "unit_server (write_cluster items w) = unit_server w"
  "peer_servers (write_cluster items w) = peer_servers w"
  "client_data (write_cluster items w) = client_data w"
  "unit_status (write_cluster items w) = unit_status w"
  by (simp_all add: write_cluster_def)

lemma write_unit_server_simps [simp]:
  "trace (write_unit_server items w) = trace w @ [UnitUpdate items]"
  "cluster (write_unit_server items w) = cluster w"
  "data (unit_server (write_unit_server items w)) = bag_update (data (unit_server w)) items"
  "component (unit_server (write_unit_server items w)) = component (unit_server w)"
  "unit_id (unit_server (write_unit_server items w)) = unit_id (unit_server w)"
  "peer_servers (write_unit_server items w) = peer_servers w"
  "client_data (write_unit_server items w) = client_data w"
  "unit_status (write_unit_server items w) = unit_status w"
  by (simp_all add: write_unit_server_def)

lemma write_client_simps [simp]:
  "trace (write_client c items w) = trace w @ [ClientUpdate (relation_id c) items]"
  "cluster (write_client c items w) = cluster w"
  "unit_server (write_client c items w) = unit_server w"
  "peer_servers (write_client c items w) = peer_servers w"
  "unit_status (write_client c items w) = unit_status w"
  "client_data (write_client c items w) =
     (client_data w)(relation_id c := bag_update (client_data w (relation_id c)) items)"
  by (simp_all add: write_client_def)

lemma servers_simps [simp]:
  "servers (emit a w) = servers w"
  "servers (emits as w) = servers w"
  "servers (defer_event w) = servers w"
  "servers (set_status e k w) = servers w"
  "servers (write_cluster items w) = servers w"
  "servers (write_client c items w) = servers w"
  by (simp_all add: servers_def)

lemma emitted_self [simp]: "emitted w w = []"
  by (simp add: emitted_def)

lemma emitted_append [simp]: "emitted w (w'\<lparr>trace := trace w @ xs\<rparr>) = xs"
  by (simp add: emitted_def)

lemma emitted_eq: "trace w' = trace w @ xs \<Longrightarrow> emitted w w' = xs"
  by (simp add: emitted_def)

section \<open>The rolling-restart callback\<close>


text \<open>
  C9. In the rolling-restart callback the workload is started or restarted exactly
  when the stability status that the callback has just set is an active status. In
  any other state the callback sets that status and defers the event, and nothing
  else: the workload is neither started nor restarted, and the entries of the unit and
  of the cluster are left as they were.
\<close>

theorem restart_only_when_stable:
  "(list_ex is_workload_restart (emitted w (restart e w))
      \<longleftrightarrow> is_ActiveStatus (status_value e (stable e w)))
   \<and> (\<not> is_ActiveStatus (status_value e (stable e w)) \<longrightarrow>
        emitted w (restart e w) = [SetStatus (stable e w), Defer]
        \<and> unit_server (restart e w) = unit_server w
        \<and> cluster (restart e w) = cluster w)"
  by (simp add: restart_def Let_def emitted_def)

theorem restart_only_when_stable_witness:
  "\<not> is_ActiveStatus
       (status_value (calm_env\<lparr>stable := (\<lambda>_. OtherStatus ''NOT_ALL_ADDED'')\<rparr>)
          (OtherStatus ''NOT_ALL_ADDED''))
   \<and> emitted running_world
         (restart (calm_env\<lparr>stable := (\<lambda>_. OtherStatus ''NOT_ALL_ADDED'')\<rparr>) running_world)
       = [SetStatus (OtherStatus ''NOT_ALL_ADDED''), Defer]
   \<and> is_ActiveStatus (status_value calm_env (stable calm_env running_world))
   \<and> list_ex is_workload_restart (emitted running_world (restart calm_env running_world))"
  using restart_only_when_stable
          [of running_world "calm_env\<lparr>stable := (\<lambda>_. OtherStatus ''NOT_ALL_ADDED'')\<rparr>"]
        restart_only_when_stable [of running_world calm_env]
  by (simp add: calm_env_def status_table_def)



subsection \<open>What each step appends to the trace\<close>

lemma appends_refl [simp]: "appends P w w"
  by (simp add: appends_def)

lemma appends_trans: "appends P w w1 \<Longrightarrow> appends P w1 w2 \<Longrightarrow> appends P w w2"
  by (auto simp: appends_def)

lemma appends_step:
  "trace w' = trace w1 @ xs \<Longrightarrow> list_all P xs \<Longrightarrow> appends P w w1 \<Longrightarrow> appends P w w'"
  by (auto simp: appends_def)

lemma appends_mono: "appends P w w' \<Longrightarrow> (\<And>a. P a \<Longrightarrow> Q a) \<Longrightarrow> appends Q w w'"
  by (auto simp: appends_def list_all_iff)

lemma appends_emitted:
  "appends P w w' \<Longrightarrow> trace w' = trace w @ emitted w w' \<and> list_all P (emitted w w')"
  by (auto simp: appends_def emitted_def)

lemma emitted_trans:
  "appends P w w1 \<Longrightarrow> appends Q w1 w2 \<Longrightarrow> emitted w w2 = emitted w w1 @ emitted w1 w2"
  by (auto simp: appends_def emitted_def)

lemma appends_emit [simp]: "appends P w (emit a w) = P a"
  by (simp add: appends_def)

lemma appends_basic:
  "P Defer \<Longrightarrow> appends P w w1 \<Longrightarrow> appends P w (defer_event w1)"
  "P a \<Longrightarrow> appends P w w1 \<Longrightarrow> appends P w (emit a w1)"
  "list_all P as \<Longrightarrow> appends P w w1 \<Longrightarrow> appends P w (emits as w1)"
  "P (SetStatus k) \<Longrightarrow> appends P w w1 \<Longrightarrow> appends P w (set_status e k w1)"
  "P (ClusterUpdate items) \<Longrightarrow> appends P w w1 \<Longrightarrow> appends P w (write_cluster items w1)"
  "P (UnitUpdate items) \<Longrightarrow> appends P w w1 \<Longrightarrow> appends P w (write_unit_server items w1)"
  "P (ClientUpdate (relation_id c) items) \<Longrightarrow> appends P w w1 \<Longrightarrow>
     appends P w (write_client c items w1)"
  by (auto simp: appends_def)

lemma init_server_appends: "appends is_routine w (init_server e w)"
  by (simp add: init_server_def Let_def appends_basic)

lemma update_external_services_appends: "appends is_routine w (update_external_services e w)"
  by (simp add: update_external_services_def appends_basic split: ExposeExternal.split)

lemma disconnect_each_appends:
  "appends is_client_update w0 w \<Longrightarrow> appends is_client_update w0 (disconnect_each cs w)"
  by (induction cs arbitrary: w) (simp_all add: appends_basic)

lemma update_each_client_appends:
  "appends is_client_update w0 w \<Longrightarrow> appends is_client_update w0 (update_each_client e cs w)"
  by (induction cs arbitrary: w) (simp_all add: appends_basic)

lemma client_update_routine: "is_client_update a \<Longrightarrow> is_routine a"
  by (cases a) simp_all

lemma disconnect_clients_appends: "appends is_routine w (disconnect_clients e w)"
  using disconnect_each_appends [of w w "clients e w"]
  by (auto simp: disconnect_clients_def intro: appends_mono client_update_routine)

lemma update_client_data_appends: "appends is_routine w (update_client_data e w)"
proof -
  let ?w1 = "set_status e (ready e w) w"
  have "appends is_routine w ?w1" by (simp add: appends_basic)
  moreover have "appends is_routine ?w1 (update_each_client e (clients e ?w1) ?w1)"
    using update_each_client_appends [of ?w1 ?w1] by (auto intro: appends_mono client_update_routine)
  ultimately show ?thesis
    by (auto simp: update_client_data_def Let_def intro: appends_trans)
qed

lemma add_init_leader_appends: "appends is_routine w (add_init_leader e w)"
  by (simp add: add_init_leader_def appends_basic split: option.split)

lemma update_members_appends: "appends is_routine w (update_members e event w)"
  by (simp add: update_members_def Let_def appends_basic)

lemma switch_quorum_appends: "appends is_routine w (switch_quorum e w)"
  by (simp add: switch_quorum_def Let_def appends_basic)

lemma update_quorum_appends: "appends is_routine w (update_quorum e event w)"
proof -
  let ?w1 = "add_init_leader e w"
  let ?w2 = "update_members e event ?w1"
  let ?w3 = "set_status e (stable e ?w2) ?w2"
  have 3: "appends is_routine w ?w3"
    by (intro appends_basic appends_trans [OF add_init_leader_appends update_members_appends]) simp
  have "appends is_routine w (update_client_data e (switch_quorum e ?w3))"
    by (rule appends_trans [OF 3 appends_trans [OF switch_quorum_appends update_client_data_appends]])
  with 3 show ?thesis by (simp add: update_quorum_def Let_def)
qed

section \<open>Initialization of the server\<close>

lemma not_unit_turn_iff:
  "not_unit_turn e w \<longleftrightarrow>
     (\<exists>ns next_name name. next_server e w = Some ns \<and> component ns = Some next_name
        \<and> component (unit_server w) = Some name \<and> next_name \<noteq> name)"
  by (auto simp: not_unit_turn_def split: option.splits)

lemma init_server_blocked:
  "internal_user_credentials e w \<noteq> [] \<Longrightarrow> all_units_related e w \<Longrightarrow> not_unit_turn e w \<Longrightarrow>
   init_server e w = set_status e NOT_UNIT_TURN w"
  by (simp add: init_server_def)

lemma init_server_proceeds:
  assumes "internal_user_credentials e w \<noteq> []" "all_units_related e w" "\<not> not_unit_turn e w"
  shows "WorkloadStart \<in> set (emitted w (init_server e w))"
    and "started (unit_server (init_server e w))"
    and "SetStatus NOT_UNIT_TURN \<notin> set (emitted w (init_server e w))"
    and "unit_status (init_server e w) = unit_status w"
  using assms by (simp_all add: init_server_def Let_def emitted_def started_def bag_get_def)

lemma init_server_starts_only_if:
  assumes "WorkloadStart \<in> set (emitted w (init_server e w))"
  shows "internal_user_credentials e w \<noteq> [] \<and> all_units_related e w \<and> \<not> not_unit_turn e w"
  using assms by (auto simp add: init_server_def Let_def emitted_def split: if_splits)

lemma init_server_marks_only_if:
  assumes "\<not> started (unit_server w)" "started (unit_server (init_server e w))"
  shows "internal_user_credentials e w \<noteq> [] \<and> all_units_related e w \<and> \<not> not_unit_turn e w"
  using assms by (auto simp add: init_server_def Let_def split: if_splits)

lemma init_server_turn_status_only_if:
  assumes "SetStatus NOT_UNIT_TURN \<in> set (emitted w (init_server e w))"
  shows "not_unit_turn e w"
  using assms by (auto simp add: init_server_def Let_def emitted_def split: if_splits)

text \<open>
  C10. When \<^verbatim>\<open>init_server\<close> reaches the startup-order check (the passwords
  exist and all units are related), the check stops the initialization, with status
  NOT_UNIT_TURN and nothing else, exactly when the next server exists, it and this
  unit both have a component, and the names of the two components differ. When the
  next server is absent, or it has no component, or this unit has none, the unit goes
  on: it starts the workload and flags itself started, whatever its unit id.
\<close>

theorem startup_order_check:
  assumes "internal_user_credentials e w \<noteq> []" and "all_units_related e w"
  shows "(init_server e w = set_status e NOT_UNIT_TURN w \<longleftrightarrow>
            (\<exists>ns next_name name. next_server e w = Some ns \<and> component ns = Some next_name
               \<and> component (unit_server w) = Some name \<and> next_name \<noteq> name))
         \<and> (next_server e w = None
              \<or> (\<exists>ns. next_server e w = Some ns \<and> component ns = None)
              \<or> component (unit_server w) = None
            \<longrightarrow> WorkloadStart \<in> set (emitted w (init_server e w))
                \<and> started (unit_server (init_server e w)))"
proof (intro conjI impI)
  show "init_server e w = set_status e NOT_UNIT_TURN w \<longleftrightarrow>
            (\<exists>ns next_name name. next_server e w = Some ns \<and> component ns = Some next_name
               \<and> component (unit_server w) = Some name \<and> next_name \<noteq> name)"
  proof
    assume "init_server e w = set_status e NOT_UNIT_TURN w"
    then have "emitted w (init_server e w) = [SetStatus NOT_UNIT_TURN]"
      by (simp add: emitted_def)
    then have "not_unit_turn e w"
      using init_server_turn_status_only_if [of w e] by simp
    then show "\<exists>ns next_name name. next_server e w = Some ns \<and> component ns = Some next_name
               \<and> component (unit_server w) = Some name \<and> next_name \<noteq> name"
      by (simp add: not_unit_turn_iff)
  next
    assume "\<exists>ns next_name name. next_server e w = Some ns \<and> component ns = Some next_name
               \<and> component (unit_server w) = Some name \<and> next_name \<noteq> name"
    then have "not_unit_turn e w" by (simp add: not_unit_turn_iff)
    with assms show "init_server e w = set_status e NOT_UNIT_TURN w"
      by (rule init_server_blocked)
  qed
next
  assume absent: "next_server e w = None
              \<or> (\<exists>ns. next_server e w = Some ns \<and> component ns = None)
              \<or> component (unit_server w) = None"
  then have free: "\<not> not_unit_turn e w"
    by (auto simp: not_unit_turn_iff)
  from assms free show "WorkloadStart \<in> set (emitted w (init_server e w))"
    by (rule init_server_proceeds)
  from assms free show "started (unit_server (init_server e w))"
    by (rule init_server_proceeds)
qed

theorem startup_order_check_witness:
  "internal_user_credentials calm_env fresh_world \<noteq> []
   \<and> all_units_related calm_env fresh_world
   \<and> next_server calm_env fresh_world = None
   \<and> WorkloadStart \<in> set (emitted fresh_world (init_server calm_env fresh_world))
   \<and> started (unit_server (init_server calm_env fresh_world))"
  using startup_order_check [of calm_env fresh_world]
  by (simp add: calm_env_def)

text \<open>
  C3, as the spec states it: \<^verbatim>\<open>init_server\<close> starts the workload and marks the
  unit started only when the computed next server is this unit. It fails where no next
  server is computed: the unit starts the workload and flags itself started, and the
  status NOT_UNIT_TURN is not set.
\<close>

theorem startup_turn_counterexample:
  "next_server calm_env running_world = None
   \<and> WorkloadStart \<in> set (emitted running_world (init_server calm_env running_world))
   \<and> SetStatus NOT_UNIT_TURN \<notin> set (emitted running_world (init_server calm_env running_world))
   \<and> started (unit_server (init_server calm_env running_world))"
  by (simp add: calm_env_def init_server_def not_unit_turn_def Let_def emitted_def
        started_def bag_get_def)

text \<open>
  C3, amended. \<^verbatim>\<open>init_server\<close> starts the workload, or flags a unit started
  that was not, only when the passwords exist, all units are related and the
  startup-order check does not block; and then it does both. The check blocks when the
  next server exists, it and this unit both have a component, and the names of the
  components differ: the handler then sets NOT_UNIT_TURN and returns, the workload is
  not started and the entries of the unit are as before.
\<close>

theorem init_server_turn_gate:
  "(WorkloadStart \<in> set (emitted w (init_server e w))
      \<or> (\<not> started (unit_server w) \<and> started (unit_server (init_server e w)))
    \<longrightarrow> internal_user_credentials e w \<noteq> [] \<and> all_units_related e w
        \<and> \<not> (\<exists>ns next_name name. next_server e w = Some ns \<and> component ns = Some next_name
               \<and> component (unit_server w) = Some name \<and> next_name \<noteq> name)
        \<and> WorkloadStart \<in> set (emitted w (init_server e w))
        \<and> started (unit_server (init_server e w)))
   \<and> (internal_user_credentials e w \<noteq> [] \<and> all_units_related e w
        \<and> (\<exists>ns next_name name. next_server e w = Some ns \<and> component ns = Some next_name
               \<and> component (unit_server w) = Some name \<and> next_name \<noteq> name)
      \<longrightarrow> init_server e w = set_status e NOT_UNIT_TURN w
          \<and> emitted w (init_server e w) = [SetStatus NOT_UNIT_TURN]
          \<and> unit_server (init_server e w) = unit_server w)"
proof (intro conjI impI)
  assume "WorkloadStart \<in> set (emitted w (init_server e w))
      \<or> (\<not> started (unit_server w) \<and> started (unit_server (init_server e w)))"
  then have pre: "internal_user_credentials e w \<noteq> [] \<and> all_units_related e w
      \<and> \<not> not_unit_turn e w"
    using init_server_starts_only_if [of w e] init_server_marks_only_if [of w e] by blast
  then show "internal_user_credentials e w \<noteq> []" and "all_units_related e w"
    by simp_all
  from pre show "\<not> (\<exists>ns next_name name. next_server e w = Some ns \<and> component ns = Some next_name
               \<and> component (unit_server w) = Some name \<and> next_name \<noteq> name)"
    by (simp only: not_unit_turn_iff) simp
  from pre show "WorkloadStart \<in> set (emitted w (init_server e w))"
    by (simp add: init_server_proceeds)
  from pre show "started (unit_server (init_server e w))"
    by (simp add: init_server_proceeds)
next
  assume blocked: "internal_user_credentials e w \<noteq> [] \<and> all_units_related e w
        \<and> (\<exists>ns next_name name. next_server e w = Some ns \<and> component ns = Some next_name
               \<and> component (unit_server w) = Some name \<and> next_name \<noteq> name)"
  then have "not_unit_turn e w" by (simp add: not_unit_turn_iff)
  with blocked have eq: "init_server e w = set_status e NOT_UNIT_TURN w"
    by (simp add: init_server_blocked)
  then show "init_server e w = set_status e NOT_UNIT_TURN w" .
  from eq show "emitted w (init_server e w) = [SetStatus NOT_UNIT_TURN]"
    by (simp add: emitted_def)
  from eq show "unit_server (init_server e w) = unit_server w"
    by simp
qed

theorem init_server_turn_gate_witness:
  "init_server
     (calm_env\<lparr>next_server := (\<lambda>_. Some \<lparr>unit_id = 0, component = Some ''zookeeper-k8s/0'', data = Map.empty\<rparr>)\<rparr>)
     (fresh_world\<lparr>unit_server := \<lparr>unit_id = 1, component = Some ''zookeeper-k8s/1'', data = Map.empty\<rparr>\<rparr>)
   = set_status calm_env NOT_UNIT_TURN
       (fresh_world\<lparr>unit_server := \<lparr>unit_id = 1, component = Some ''zookeeper-k8s/1'', data = Map.empty\<rparr>\<rparr>)
   \<and> WorkloadStart \<in> set (emitted fresh_world (init_server calm_env fresh_world))
   \<and> internal_user_credentials calm_env fresh_world \<noteq> []"
  using init_server_turn_gate
          [of "fresh_world\<lparr>unit_server := \<lparr>unit_id = 1, component = Some ''zookeeper-k8s/1'', data = Map.empty\<rparr>\<rparr>"
              "calm_env\<lparr>next_server := (\<lambda>_. Some \<lparr>unit_id = 0, component = Some ''zookeeper-k8s/0'', data = Map.empty\<rparr>)\<rparr>"]
        init_server_turn_gate [of fresh_world calm_env]
  by (simp add: calm_env_def set_status_def init_server_def not_unit_turn_def Let_def emitted_def)

subsection \<open>What each step leaves unchanged\<close>

lemma update_each_client_fields [simp]:
  "cluster (update_each_client e cs w) = cluster w"
  "unit_server (update_each_client e cs w) = unit_server w"
  "peer_servers (update_each_client e cs w) = peer_servers w"
  "unit_status (update_each_client e cs w) = unit_status w"
  by (induction cs arbitrary: w) simp_all

lemma disconnect_each_fields [simp]:
  "cluster (disconnect_each cs w) = cluster w"
  "unit_server (disconnect_each cs w) = unit_server w"
  "peer_servers (disconnect_each cs w) = peer_servers w"
  "unit_status (disconnect_each cs w) = unit_status w"
  by (induction cs arbitrary: w) simp_all

lemma disconnect_clients_fields [simp]:
  "cluster (disconnect_clients e w) = cluster w"
  "unit_server (disconnect_clients e w) = unit_server w"
  "peer_servers (disconnect_clients e w) = peer_servers w"
  "unit_status (disconnect_clients e w) = unit_status w"
  by (simp_all add: disconnect_clients_def)

lemma update_client_data_fields [simp]:
  "cluster (update_client_data e w) = cluster w"
  "unit_server (update_client_data e w) = unit_server w"
  "peer_servers (update_client_data e w) = peer_servers w"
  by (simp_all add: update_client_data_def Let_def)

lemma update_external_services_fields [simp]:
  "cluster (update_external_services e w) = cluster w"
  "unit_server (update_external_services e w) = unit_server w"
  "peer_servers (update_external_services e w) = peer_servers w"
  "client_data (update_external_services e w) = client_data w"
  by (simp_all add: update_external_services_def split: ExposeExternal.split)

lemma init_server_fields [simp]:
  "cluster (init_server e w) = cluster w"
  "peer_servers (init_server e w) = peer_servers w"
  "client_data (init_server e w) = client_data w"
  "component (unit_server (init_server e w)) = component (unit_server w)"
  "unit_id (unit_server (init_server e w)) = unit_id (unit_server w)"
  "certificate (unit_server (init_server e w)) = certificate (unit_server w)"
  by (simp_all add: init_server_def Let_def certificate_def bag_get_def)

lemma add_init_leader_fields [simp]:
  "unit_server (add_init_leader e w) = unit_server w"
  "peer_servers (add_init_leader e w) = peer_servers w"
  "client_data (add_init_leader e w) = client_data w"
  "unit_status (add_init_leader e w) = unit_status w"
  by (simp_all add: add_init_leader_def split: option.split)

lemma update_members_fields [simp]:
  "unit_server (update_members e event w) = unit_server w"
  "peer_servers (update_members e event w) = peer_servers w"
  "client_data (update_members e event w) = client_data w"
  "unit_status (update_members e event w) = unit_status w"
  by (simp_all add: update_members_def Let_def)

lemma switch_quorum_fields [simp]:
  "unit_server (switch_quorum e w) = unit_server w"
  "peer_servers (switch_quorum e w) = peer_servers w"
  "client_data (switch_quorum e w) = client_data w"
  "unit_status (switch_quorum e w) = unit_status w"
  by (simp_all add: switch_quorum_def Let_def)

lemma update_quorum_fields [simp]:
  "unit_server (update_quorum e event w) = unit_server w"
  "peer_servers (update_quorum e event w) = peer_servers w"
  by (simp_all add: update_quorum_def Let_def)

section \<open>The quorum update\<close>

lemma switch_quorum_cluster_other:
  "k \<noteq> ''quorum'' \<Longrightarrow> k \<noteq> ''switching-encryption'' \<Longrightarrow>
   cluster (switch_quorum e w) k = cluster w k"
  by (simp add: switch_quorum_def Let_def)

lemma update_members_emitted:
  "stale_quorum e w \<or> is_departed_or_elected event \<or> state_healthy e w \<Longrightarrow>
   emitted w (update_members e event w)
     = [CallUpdateCluster, ClusterUpdate (map (\<lambda>(i, v). (str i, v)) (update_cluster e w))]
   \<and> cluster (update_members e event w)
     = bag_update (cluster w) (map (\<lambda>(i, v). (str i, v)) (update_cluster e w))"
  by (simp add: update_members_def Let_def emitted_def)

lemma update_quorum_skipped:
  "\<not> is_leader e w \<or> departing_unit event = Some (unit_name e) \<Longrightarrow> update_quorum e event w = w"
  by (auto simp add: update_quorum_def)

lemma update_quorum_no_defer: "Defer \<notin> set (emitted w (update_quorum e event w))"
proof -
  have "list_all is_routine (emitted w (update_quorum e event w))"
    using appends_emitted [OF update_quorum_appends] by blast
  then show ?thesis by (auto simp: list_all_iff)
qed

text \<open>
  C6. \<^verbatim>\<open>update_quorum\<close> changes nothing, state or trace, on a unit that is not
  the leader and whenever the departing unit of the event is this unit. When the
  leader runs it for another unit's departure or for a leader election, the membership
  is recomputed in that invocation and written to the cluster data (every entry but
  the two encryption entries is the one of the recomputed membership). No invocation
  of \<^verbatim>\<open>update_quorum\<close> defers the event.
\<close>

theorem update_quorum_leader_only:
  "(\<not> is_leader e w \<or> departing_unit event = Some (unit_name e)
      \<longrightarrow> update_quorum e event w = w)
   \<and> (is_leader e w \<and> departing_unit event \<noteq> Some (unit_name e) \<and> is_departed_or_elected event
      \<longrightarrow> (let w1 = add_init_leader e w;
               members = map (\<lambda>(i, v). (str i, v)) (update_cluster e w1);
               w' = update_quorum e event w
           in CallUpdateCluster \<in> set (emitted w w')
              \<and> ClusterUpdate members \<in> set (emitted w w')
              \<and> (\<forall>k. k \<noteq> ''quorum'' \<and> k \<noteq> ''switching-encryption''
                    \<longrightarrow> cluster w' k = bag_update (cluster w1) members k)))
   \<and> Defer \<notin> set (emitted w (update_quorum e event w))"
proof (intro conjI impI)
  assume "\<not> is_leader e w \<or> departing_unit event = Some (unit_name e)"
  then show "update_quorum e event w = w" by (rule update_quorum_skipped)
next
  show "Defer \<notin> set (emitted w (update_quorum e event w))" by (rule update_quorum_no_defer)
next
  assume run: "is_leader e w \<and> departing_unit event \<noteq> Some (unit_name e)
     \<and> is_departed_or_elected event"
  define w1 where "w1 = add_init_leader e w"
  define members where "members = map (\<lambda>(i, v). (str i, v)) (update_cluster e w1)"
  define w2 where "w2 = update_members e event w1"
  define w3 where "w3 = set_status e (stable e w2) w2"
  define w' where "w' = update_quorum e event w"
  have m: "emitted w1 w2 = [CallUpdateCluster, ClusterUpdate members]"
    and c2: "cluster w2 = bag_update (cluster w1) members"
    using run update_members_emitted [of e w1 event] by (simp_all add: w2_def members_def)
  have a1: "appends is_routine w w1"
    unfolding w1_def by (rule add_init_leader_appends)
  have a2: "appends is_routine w1 w2"
    unfolding w2_def by (rule update_members_appends)
  have a3: "appends is_routine w2 w'"
  proof -
    have "appends is_routine w2 w3" by (simp add: w3_def appends_basic)
    moreover have "appends is_routine w3 (update_client_data e (switch_quorum e w3))"
      by (rule appends_trans [OF switch_quorum_appends update_client_data_appends])
    ultimately show ?thesis
      using run by (auto simp: w'_def update_quorum_def Let_def w1_def w2_def w3_def
          intro: appends_trans)
  qed
  have "emitted w w' = emitted w w1 @ emitted w1 w2 @ emitted w2 w'"
    using emitted_trans [OF a1 appends_trans [OF a2 a3]] emitted_trans [OF a2 a3] by simp
  with m have tr: "CallUpdateCluster \<in> set (emitted w w')"
    "ClusterUpdate members \<in> set (emitted w w')"
    by simp_all
  have cl: "cluster w' k = bag_update (cluster w1) members k"
    if "k \<noteq> ''quorum''" "k \<noteq> ''switching-encryption''" for k
    using run that c2
    by (simp add: w'_def update_quorum_def Let_def w1_def [symmetric] w2_def [symmetric]
        switch_quorum_cluster_other)
  from tr cl show "let w1 = add_init_leader e w;
               members = map (\<lambda>(i, v). (str i, v)) (update_cluster e w1);
               w' = update_quorum e event w
           in CallUpdateCluster \<in> set (emitted w w')
              \<and> ClusterUpdate members \<in> set (emitted w w')
              \<and> (\<forall>k. k \<noteq> ''quorum'' \<and> k \<noteq> ''switching-encryption''
                    \<longrightarrow> cluster w' k = bag_update (cluster w1) members k)"
    by (simp add: Let_def w1_def members_def w'_def)
qed

theorem update_quorum_leader_only_witness:
  "update_quorum follower_env LeaderElectedEvent running_world = running_world
   \<and> update_quorum calm_env (RelationDepartedEvent (Some ''zookeeper-k8s/0'')) running_world
       = running_world
   \<and> ClusterUpdate [(''2'', ''removed'')]
       \<in> set (emitted running_world
                (update_quorum (calm_env\<lparr>update_cluster := (\<lambda>_. [(2, ''removed'')])\<rparr>)
                   (RelationDepartedEvent (Some ''zookeeper-k8s/2'')) running_world))
   \<and> cluster (update_quorum (calm_env\<lparr>update_cluster := (\<lambda>_. [(2, ''removed'')])\<rparr>)
                   (RelationDepartedEvent (Some ''zookeeper-k8s/2'')) running_world) ''2''
       = Some ''removed''"
  using update_quorum_leader_only [of follower_env running_world LeaderElectedEvent]
        update_quorum_leader_only
          [of calm_env running_world "RelationDepartedEvent (Some ''zookeeper-k8s/0'')"]
        update_quorum_leader_only
          [of "calm_env\<lparr>update_cluster := (\<lambda>_. [(2, ''removed'')])\<rparr>" running_world
              "RelationDepartedEvent (Some ''zookeeper-k8s/2'')"]
  by (simp add: follower_env_def calm_env_def add_init_leader_def Let_def str.simps digits_def)

lemma add_init_leader_switching [simp]:
  "switching_encryption (cluster (add_init_leader e w)) = switching_encryption (cluster w)"
proof -
  have "bag_get (bag_update d [(str n, v)]) ''switching-encryption''
      = bag_get d ''switching-encryption''" for d n v
    by (rule bag_get_update_other) (use str_neq_switching [of n] in auto)
  then show ?thesis
    by (simp add: add_init_leader_def switching_encryption_def del: bag_update_Cons
        split: option.split)
qed

lemma update_members_switching [simp]:
  "switching_encryption (cluster (update_members e event w)) = switching_encryption (cluster w)"
proof -
  have "bag_get (bag_update d (map (\<lambda>(i, v). (str i, v)) ms)) ''switching-encryption''
      = bag_get d ''switching-encryption''" for d ms
    by (rule bag_get_update_other, rule member_keys_other) (simp_all add: digits_def)
  then show ?thesis
    by (simp add: update_members_def Let_def switching_encryption_def)
qed

lemma switch_quorum_cleared:
  assumes "switching_encryption (cluster w)"
    and "\<not> switching_encryption (cluster (switch_quorum e w))"
  shows "all_units_unified w
     \<and> cluster_quorum (cluster (switch_quorum e w)) = (if cluster_tls e w then ''ssl'' else ''non-ssl'')
     \<and> all_units_quorum (switch_quorum e w)"
  using assms
  by (auto simp add: switch_quorum_def Let_def switching_encryption_def bag_get_def
      cluster_quorum_def all_units_quorum_def split: if_splits)

text \<open>
  C1. Whenever \<^verbatim>\<open>update_quorum\<close> takes the cluster from a state with the
  migration flag set to a state with the flag cleared, it ran on the leader, the
  cluster was stable, and in the state it leaves every known node reports the unified
  flag, every node's reported quorum mode is the target, and the quorum mode of the
  cluster has been advanced to that target: ssl when TLS is enabled, non-ssl
  otherwise.
\<close>

theorem switching_cleared_only_when_converged:
  assumes "switching_encryption (cluster w)"
    and "\<not> switching_encryption (cluster (update_quorum e event w))"
  shows "let w2 = update_members e event (add_init_leader e w);
             w3 = set_status e (stable e w2) w2;
             target = (if cluster_tls e w3 then ''ssl'' else ''non-ssl'');
             w' = update_quorum e event w
         in is_leader e w
            \<and> is_ActiveStatus (status_value e (stable e w2))
            \<and> list_all unified (servers w')
            \<and> list_all (\<lambda>s. server_quorum s = target) (servers w')
            \<and> cluster_quorum (cluster w') = target"
proof -
  define w2 where "w2 = update_members e event (add_init_leader e w)"
  define w3 where "w3 = set_status e (stable e w2) w2"
  define w4 where "w4 = switch_quorum e w3"
  define w' where "w' = update_quorum e event w"
  have sw3: "switching_encryption (cluster w3)"
    using assms(1) by (simp add: w3_def w2_def)
  have leader: "is_leader e w \<and> departing_unit event \<noteq> Some (unit_name e)"
    using assms
    by (cases "is_leader e w \<and> departing_unit event \<noteq> Some (unit_name e)")
       (auto simp: update_quorum_def)
  have active: "is_ActiveStatus (status_value e (stable e w2))"
  proof (rule ccontr)
    assume "\<not> is_ActiveStatus (status_value e (stable e w2))"
    with leader have "update_quorum e event w = w3"
      by (simp add: update_quorum_def Let_def w2_def w3_def)
    with assms(2) sw3 show False by simp
  qed
  with leader have w': "w' = update_client_data e w4"
    by (simp add: w'_def update_quorum_def Let_def w2_def w3_def w4_def)
  then have "\<not> switching_encryption (cluster w4)"
    using assms(2) by (simp add: w'_def)
  with sw3 have conv: "all_units_unified w3"
    "cluster_quorum (cluster w4) = (if cluster_tls e w3 then ''ssl'' else ''non-ssl'')"
    "all_units_quorum w4"
    using switch_quorum_cleared [of w3 e] by (simp_all add: w4_def)
  have srv: "servers w' = servers w3" "servers w4 = servers w3"
    by (simp_all add: w' w4_def servers_def)
  have cl: "cluster w' = cluster w4"
    by (simp add: w')
  from conv srv cl have
    "list_all unified (servers w')"
    "list_all (\<lambda>s. server_quorum s = (if cluster_tls e w3 then ''ssl'' else ''non-ssl'')) (servers w')"
    "cluster_quorum (cluster w') = (if cluster_tls e w3 then ''ssl'' else ''non-ssl'')"
    by (simp_all add: all_units_unified_def all_units_quorum_def)
  with leader active show ?thesis
    by (simp add: Let_def w2_def [symmetric] w3_def [symmetric] w'_def [symmetric])
qed

theorem switching_cleared_only_when_converged_witness:
  "switching_encryption (cluster migrating_world)
   \<and> \<not> switching_encryption (cluster (update_quorum calm_env UpdateStatusEvent migrating_world))
   \<and> is_leader calm_env migrating_world
   \<and> list_all unified (servers (update_quorum calm_env UpdateStatusEvent migrating_world))
   \<and> list_all (\<lambda>s. server_quorum s = ''non-ssl'')
         (servers (update_quorum calm_env UpdateStatusEvent migrating_world))
   \<and> cluster_quorum (cluster (update_quorum calm_env UpdateStatusEvent migrating_world)) = ''non-ssl''"
proof -
  have before: "switching_encryption (cluster migrating_world)"
    by (simp add: migrating_world_def running_world_def fresh_world_def
        switching_encryption_def bag_get_def)
  have after: "\<not> switching_encryption
      (cluster (update_quorum calm_env UpdateStatusEvent migrating_world))"
    by (simp add: migrating_world_def running_world_def fresh_world_def calm_env_def
        status_table_def update_quorum_def add_init_leader_def update_members_def
        switch_quorum_def all_units_unified_def all_units_quorum_def servers_def unified_def
        server_quorum_def cluster_quorum_def switching_encryption_def bag_get_def Let_def)
  show ?thesis
    using before after switching_cleared_only_when_converged [OF before after]
    by (simp add: Let_def calm_env_def)
qed

section \<open>The reconciliation\<close>

lemma routine_or_defer: "is_routine a \<Longrightarrow> is_routine a \<or> a = Defer"
  by simp

lemma sans_changed_no_certificate:
  "certificate (unit_server w) = [] \<Longrightarrow> \<not> sans_changed e w"
  by (simp add: sans_changed_def get_current_sans_def sym_diff_def)

lemma reconcile_until_restart_cases:
  obtains
    (stopped) w' where "reconcile_until_restart e event w = Return w'"
      "appends (\<lambda>a. is_routine a \<or> a = Defer) w w'"
      "certificate (unit_server w') = certificate (unit_server w)"
  | (renewal) w2 where
      "reconcile_until_restart e event w =
         Return (write_unit_server [(''certificate'', '''')]
                   (emit (EmitCertificateExpiring (certificate (unit_server w2))) w2))"
      "appends is_routine w w2" "sans_changed e w2"
      "certificate (unit_server w2) = certificate (unit_server w)"
  | (goes_on) w3 where "reconcile_until_restart e event w = Continue w3"
      "appends is_routine w w3"
      "certificate (unit_server w3) = certificate (unit_server w)"
proof -
  define w1 where "w1 = (if \<not> started (unit_server w) then init_server e w else w)"
  define w2 where "w2 = update_external_services e w1"
  define w3 where "w3 = update_quorum e event w2"
  have a1: "appends is_routine w w1"
    by (simp add: w1_def init_server_appends)
  have a2: "appends is_routine w w2"
    unfolding w2_def by (rule appends_trans [OF a1 update_external_services_appends])
  have a3: "appends is_routine w w3"
    unfolding w3_def by (rule appends_trans [OF a2 update_quorum_appends])
  have c1: "certificate (unit_server w1) = certificate (unit_server w)"
    by (simp add: w1_def)
  have c2: "certificate (unit_server w2) = certificate (unit_server w)"
    by (simp add: w2_def c1)
  have c3: "certificate (unit_server w3) = certificate (unit_server w)"
    by (simp add: w3_def c2)
  have unfold: "reconcile_until_restart e event w =
     (if \<not> container_can_connect e w
      then Return (defer_event (set_status e CONTAINER_NOT_CONNECTED w))
      else if \<not> peer_relation e w then Return (set_status e NO_PEER_RELATION w)
      else if is_restore_in_progress e w then Return w
      else if \<not> upgrade_idle e w then Return (defer_event w)
      else if state_endpoints e w2 = [] then Return (defer_event (disconnect_clients e w2))
      else if sans_changed e w2
           then Return (write_unit_server [(''certificate'', '''')]
                          (emit (EmitCertificateExpiring (certificate (unit_server w2))) w2))
      else if departing_unit event = Some (unit_name e) then Return w3
      else Continue w3)"
    by (simp add: reconcile_until_restart_def Let_def w1_def w2_def w3_def)
  consider (g1) "\<not> container_can_connect e w"
    | (g2) "container_can_connect e w" "\<not> peer_relation e w"
    | (g3) "container_can_connect e w" "peer_relation e w" "is_restore_in_progress e w"
    | (g4) "container_can_connect e w" "peer_relation e w" "\<not> is_restore_in_progress e w"
        "\<not> upgrade_idle e w"
    | (run) "container_can_connect e w" "peer_relation e w" "\<not> is_restore_in_progress e w"
        "upgrade_idle e w"
    by blast
  then show thesis
  proof cases
    case g1
    show thesis
      by (rule stopped [of "defer_event (set_status e CONTAINER_NOT_CONNECTED w)"])
         (simp_all add: unfold g1 appends_basic)
  next
    case g2
    show thesis
      by (rule stopped [of "set_status e NO_PEER_RELATION w"])
         (simp_all add: unfold g2 appends_basic)
  next
    case g3
    show thesis
      by (rule stopped [of w]) (simp_all add: unfold g3)
  next
    case g4
    show thesis
      by (rule stopped [of "defer_event w"]) (simp_all add: unfold g4 appends_basic)
  next
    case run
    show thesis
    proof (cases "state_endpoints e w2 = []")
      case True
      have "appends (\<lambda>a. is_routine a \<or> a = Defer) w (disconnect_clients e w2)"
        by (rule appends_mono [OF appends_trans [OF a2 disconnect_clients_appends]]) simp
      then show thesis
        by (intro stopped [of "defer_event (disconnect_clients e w2)"])
           (simp_all add: unfold run True appends_basic c2)
    next
      case False
      note ep = this
      show thesis
      proof (cases "sans_changed e w2")
        case True
        show thesis
          by (rule renewal [of w2]) (simp_all add: unfold run ep True a2 c2)
      next
        case False
        show thesis
        proof (cases "departing_unit event = Some (unit_name e)")
          case True
          have "appends (\<lambda>a. is_routine a \<or> a = Defer) w w3"
            by (rule appends_mono [OF a3]) simp
          then show thesis
            by (intro stopped [of w3]) (simp_all add: unfold run ep False True c3)
        next
          case dep: False
          show thesis
            by (rule goes_on [of w3]) (simp_all add: unfold run ep False dep a3 c3)
        qed
      qed
    qed
  qed
qed

lemma reconcile_from_restart_trace:
  "\<exists>rest. trace (reconcile_from_restart e w)
      = trace w @ CallConfigChanged # (if restart_needed e w then [EmitAcquireLock] else []) @ rest
     \<and> list_all (\<lambda>a. is_routine a \<or> a = Defer) rest"
  by (simp add: reconcile_from_restart_def Let_def)

lemma reconcile_from_restart_fields [simp]:
  "unit_server (reconcile_from_restart e w) = unit_server w"
  "cluster (reconcile_from_restart e w) = cluster w"
  "peer_servers (reconcile_from_restart e w) = peer_servers w"
  "client_data (reconcile_from_restart e w) = client_data w"
  by (simp_all add: reconcile_from_restart_def Let_def)

lemma quiet_actions:
  assumes "list_all (\<lambda>a. is_routine a \<or> a = Defer) xs"
  shows "EmitAcquireLock \<notin> set xs" and "WorkloadRestart \<notin> set xs"
    and "\<not> list_ex is_renewal xs"
proof -
  have "\<not> is_renewal a" if "is_routine a \<or> a = Defer" for a
    using that by (cases a) auto
  with assms show "\<not> list_ex is_renewal xs"
    by (auto simp: list_all_iff list_ex_iff)
  from assms show "EmitAcquireLock \<notin> set xs" and "WorkloadRestart \<notin> set xs"
    by (auto simp: list_all_iff)
qed

lemma routine_actions:
  assumes "list_all is_routine xs"
  shows "EmitAcquireLock \<notin> set xs" and "WorkloadRestart \<notin> set xs"
    and "\<not> list_ex is_renewal xs"
proof -
  from assms have "list_all (\<lambda>a. is_routine a \<or> a = Defer) xs"
    by (auto simp: list_all_iff)
  then show "EmitAcquireLock \<notin> set xs" and "WorkloadRestart \<notin> set xs"
    and "\<not> list_ex is_renewal xs"
    by (rule quiet_actions)+
qed

lemmas model_defs =
  on_cluster_relation_changed_def reconcile_until_restart_def reconcile_from_restart_def
  restart_needed_def update_quorum_def add_init_leader_def update_members_def
  switch_quorum_def update_client_data_def update_external_services_def init_server_def
  disconnect_clients_def sans_changed_def get_current_sans_def sym_diff_def
  not_unit_turn_def all_units_unified_def all_units_quorum_def servers_def
  started_def unified_def server_quorum_def certificate_def switching_encryption_def
  cluster_quorum_def bag_get_def emitted_def Let_def

lemmas example_defs =
  calm_env_def follower_env_def moved_env_def status_table_def fresh_world_def
  running_world_def certified_world_def migrating_world_def new_unit_def started_unit_def

lemma lock_requested_iff:
  "(EmitAcquireLock \<in> set (emitted w (on_cluster_relation_changed e event w)) \<longleftrightarrow>
      (\<exists>w'. reconcile_until_restart e event w = Continue w'
         \<and> (config_changed e w' \<or> switching_encryption (cluster w'))
         \<and> started (unit_server w')
         \<and> upgrade_idle e (emit CallConfigChanged w')))
   \<and> WorkloadRestart \<notin> set (emitted w (on_cluster_relation_changed e event w))"
proof (cases rule: reconcile_until_restart_cases [of e event w])
  case (stopped w')
  from stopped(2) have "list_all (\<lambda>a. is_routine a \<or> a = Defer) (emitted w w')"
    using appends_emitted by blast
  then have "EmitAcquireLock \<notin> set (emitted w w')" "WorkloadRestart \<notin> set (emitted w w')"
    by (rule quiet_actions)+
  with stopped(1) show ?thesis
    by (simp add: on_cluster_relation_changed_def)
next
  case (renewal w2)
  from renewal(2) obtain xs where xs: "trace w2 = trace w @ xs" "list_all is_routine xs"
    by (auto simp: appends_def)
  then have "EmitAcquireLock \<notin> set xs" "WorkloadRestart \<notin> set xs"
    by (simp_all add: routine_actions)
  with renewal(1) xs(1) show ?thesis
    by (simp add: on_cluster_relation_changed_def emitted_def)
next
  case (goes_on w3)
  from goes_on(2) obtain xs where xs: "trace w3 = trace w @ xs" "list_all is_routine xs"
    by (auto simp: appends_def)
  then have no: "EmitAcquireLock \<notin> set xs" "WorkloadRestart \<notin> set xs"
    by (simp_all add: routine_actions)
  obtain rest where rest: "trace (reconcile_from_restart e w3)
      = trace w3 @ CallConfigChanged # (if restart_needed e w3 then [EmitAcquireLock] else []) @ rest"
    "list_all (\<lambda>a. is_routine a \<or> a = Defer) rest"
    using reconcile_from_restart_trace [of e w3] by blast
  then have no': "EmitAcquireLock \<notin> set rest" "WorkloadRestart \<notin> set rest"
    by (simp_all add: quiet_actions)
  have "emitted w (on_cluster_relation_changed e event w)
      = xs @ CallConfigChanged # (if restart_needed e w3 then [EmitAcquireLock] else []) @ rest"
    using goes_on(1) xs(1) rest(1) by (simp add: on_cluster_relation_changed_def emitted_def)
  with no no' goes_on(1) show ?thesis
    by (simp add: restart_needed_def Let_def)
qed

lemma reconcile_until_restart_Continue_iff:
  "reconcile_until_restart e event w = Continue w' \<longleftrightarrow>
     (let w1 = (if \<not> started (unit_server w) then init_server e w else w);
          w2 = update_external_services e w1
      in container_can_connect e w \<and> peer_relation e w \<and> \<not> is_restore_in_progress e w
         \<and> upgrade_idle e w \<and> state_endpoints e w2 \<noteq> [] \<and> \<not> sans_changed e w2
         \<and> departing_unit event \<noteq> Some (unit_name e)
         \<and> w' = update_quorum e event w2)"
  by (auto simp add: reconcile_until_restart_def Let_def)

text \<open>
  C5, as the spec states it: during a reconciliation the restart lock is requested
  exactly when a configuration change is reported or the cluster is switching its
  encryption, and the unit is started, and no upgrade is in progress. It fails where
  an earlier return ends the handler: for the departure of this very unit, with the
  cluster switching its encryption, the unit started and no upgrade in progress, the
  handler returns before the restart check and no lock is requested.
\<close>

theorem restart_requested_counterexample:
  "switching_encryption (cluster migrating_world)
   \<and> started (unit_server migrating_world)
   \<and> upgrade_idle calm_env migrating_world
   \<and> EmitAcquireLock
       \<notin> set (emitted migrating_world
                (on_cluster_relation_changed calm_env
                   (RelationDepartedEvent (Some ''zookeeper-k8s/0'')) migrating_world))
   \<and> switching_encryption
        (cluster (on_cluster_relation_changed calm_env
                    (RelationDepartedEvent (Some ''zookeeper-k8s/0'')) migrating_world))"
  by (simp add: model_defs example_defs)

text \<open>
  C5, amended. The reconciliation requests the restart lock exactly when it reaches
  the restart check (the container can connect, the peer relation exists, no restore
  and no upgrade is in progress, the endpoints are known, the certificate names are
  unchanged, and the event is not the departure of this unit) and there the call of
  \<^verbatim>\<open>config_changed\<close> reports a change or the cluster is switching its
  encryption, and this unit is started, and no upgrade is in progress. No
  reconciliation restarts the workload itself.
\<close>

theorem restart_requested_when_reached:
  "(let w1 = (if \<not> started (unit_server w) then init_server e w else w);
        w2 = update_external_services e w1;
        w3 = update_quorum e event w2;
        reached = (container_can_connect e w \<and> peer_relation e w
                   \<and> \<not> is_restore_in_progress e w \<and> upgrade_idle e w
                   \<and> state_endpoints e w2 \<noteq> [] \<and> \<not> sans_changed e w2
                   \<and> departing_unit event \<noteq> Some (unit_name e))
    in EmitAcquireLock \<in> set (emitted w (on_cluster_relation_changed e event w)) \<longleftrightarrow>
         reached
         \<and> (config_changed e w3 \<or> switching_encryption (cluster w3))
         \<and> started (unit_server w3)
         \<and> upgrade_idle e (emit CallConfigChanged w3))
   \<and> WorkloadRestart \<notin> set (emitted w (on_cluster_relation_changed e event w))"
  using lock_requested_iff [of w e event]
  by (simp only: reconcile_until_restart_Continue_iff Let_def) blast

theorem restart_requested_when_reached_witness:
  "EmitAcquireLock
     \<in> set (emitted running_world
              (on_cluster_relation_changed (calm_env\<lparr>config_changed := (\<lambda>_. True)\<rparr>)
                 ConfigChangedEvent running_world))
   \<and> EmitAcquireLock
     \<notin> set (emitted running_world
              (on_cluster_relation_changed calm_env ConfigChangedEvent running_world))"
  using restart_requested_when_reached
          [of running_world "calm_env\<lparr>config_changed := (\<lambda>_. True)\<rparr>" ConfigChangedEvent]
        restart_requested_when_reached [of running_world calm_env ConfigChangedEvent]
  by (simp add: model_defs example_defs)

text \<open>
  C2. A reconciliation that requests a certificate renewal leaves the certificate
  reference of the unit cleared. A reconciliation that starts with the reference
  cleared requests no renewal and leaves the reference cleared. So after a renewal
  request, however often the reconciliation runs again before a new certificate is
  stored, no second request is made.
\<close>

theorem renewal_requested_once:
  "(list_ex is_renewal (emitted w (on_cluster_relation_changed e event w))
      \<longrightarrow> certificate (unit_server (on_cluster_relation_changed e event w)) = [])
   \<and> (certificate (unit_server w) = []
      \<longrightarrow> \<not> list_ex is_renewal (emitted w (on_cluster_relation_changed e event w))
          \<and> certificate (unit_server (on_cluster_relation_changed e event w)) = [])"
proof (cases rule: reconcile_until_restart_cases [of e event w])
  case (stopped w')
  from stopped(2) have "list_all (\<lambda>a. is_routine a \<or> a = Defer) (emitted w w')"
    using appends_emitted by blast
  then have "\<not> list_ex is_renewal (emitted w w')"
    by (rule quiet_actions)
  with stopped(1,3) show ?thesis
    by (simp add: on_cluster_relation_changed_def)
next
  case (renewal w2)
  from renewal(3,4) have "certificate (unit_server w) \<noteq> []"
    using sans_changed_no_certificate [of w2 e] by auto
  moreover have "certificate (unit_server (on_cluster_relation_changed e event w)) = []"
    using renewal(1) by (simp add: on_cluster_relation_changed_def certificate_def bag_get_def)
  ultimately show ?thesis by simp
next
  case (goes_on w3)
  from goes_on(2) obtain xs where xs: "trace w3 = trace w @ xs" "list_all is_routine xs"
    by (auto simp: appends_def)
  then have no: "\<not> list_ex is_renewal xs"
    by (simp add: routine_actions)
  obtain rest where rest: "trace (reconcile_from_restart e w3)
      = trace w3 @ CallConfigChanged # (if restart_needed e w3 then [EmitAcquireLock] else []) @ rest"
    "list_all (\<lambda>a. is_routine a \<or> a = Defer) rest"
    using reconcile_from_restart_trace [of e w3] by blast
  then have no': "\<not> list_ex is_renewal rest"
    by (simp add: quiet_actions)
  have "emitted w (on_cluster_relation_changed e event w)
      = xs @ CallConfigChanged # (if restart_needed e w3 then [EmitAcquireLock] else []) @ rest"
    using goes_on(1) xs(1) rest(1) by (simp add: on_cluster_relation_changed_def emitted_def)
  with no no' goes_on(1,3) show ?thesis
    by (simp add: on_cluster_relation_changed_def)
qed

theorem renewal_requested_once_witness:
  "list_ex is_renewal
     (emitted certified_world
        (on_cluster_relation_changed moved_env UpdateStatusEvent certified_world))
   \<and> certificate
        (unit_server (on_cluster_relation_changed moved_env UpdateStatusEvent certified_world))
       = []
   \<and> \<not> list_ex is_renewal
         (emitted (on_cluster_relation_changed moved_env UpdateStatusEvent certified_world)
            (on_cluster_relation_changed moved_env UpdateStatusEvent
               (on_cluster_relation_changed moved_env UpdateStatusEvent certified_world)))"
proof -
  have first: "list_ex is_renewal
     (emitted certified_world
        (on_cluster_relation_changed moved_env UpdateStatusEvent certified_world))"
    by (simp add: model_defs example_defs)
  with renewal_requested_once [of certified_world moved_env UpdateStatusEvent]
  have cleared: "certificate
        (unit_server (on_cluster_relation_changed moved_env UpdateStatusEvent certified_world))
       = []"
    by simp
  with renewal_requested_once
         [of "on_cluster_relation_changed moved_env UpdateStatusEvent certified_world"
             moved_env UpdateStatusEvent]
  have "\<not> list_ex is_renewal
         (emitted (on_cluster_relation_changed moved_env UpdateStatusEvent certified_world)
            (on_cluster_relation_changed moved_env UpdateStatusEvent
               (on_cluster_relation_changed moved_env UpdateStatusEvent certified_world)))"
    by simp
  with first cleared show ?thesis by simp
qed

section \<open>Publication of the client data\<close>

lemma update_each_client_snoc:
  "update_each_client e (cs @ [c]) w =
     (let v = update_each_client e cs w
      in if client_acls_not_set e v c then v else write_client c (client_items c) v)"
  by (induction cs arbitrary: w) (simp_all add: Let_def)

lemma update_each_client_turn:
  assumes "i < length cs"
  shows "update_each_client e (take (Suc i) cs) w =
     (let v = update_each_client e (take i cs) w
      in if client_acls_not_set e v (cs ! i) then v
         else write_client (cs ! i) (client_items (cs ! i)) v)"
  using assms by (simp add: take_Suc_conv_app_nth update_each_client_snoc)

lemma published_entries:
  "bag_get (client_data (write_client c (client_items c) v) (relation_id c)) ''endpoints''
     = endpoints c"
  "bag_get (client_data (write_client c (client_items c) v) (relation_id c)) ''tls'' = tls c"
  "bag_get (client_data (write_client c (client_items c) v) (relation_id c)) ''username''
     = username c"
  "bag_get (client_data (write_client c (client_items c) v) (relation_id c)) ''password''
     = password c"
  "bag_get (client_data (write_client c (client_items c) v) (relation_id c)) ''database''
     = database c"
  by (simp_all add: client_items_def bag_get_def)

text \<open>
  C8, as the spec states it: on the leader, a client whose password is set and is in
  the jaas file has its data published. It fails while the cluster is not ready: the
  leader, with such a client related, writes no client data at all.
\<close>

theorem client_data_counterexample:
  "is_leader unready_env running_world
   \<and> password kafka_client \<noteq> []
   \<and> sublist (password kafka_client) (concat (current_jaas unready_env running_world))
   \<and> clients unready_env running_world = [kafka_client]
   \<and> client_data (update_client_data unready_env running_world) = client_data running_world
   \<and> \<not> list_ex is_client_update
         (emitted running_world (update_client_data unready_env running_world))"
  by (simp add: unready_env_def serving_env_def calm_env_def status_table_def kafka_client_def
      update_client_data_def Let_def emitted_def sublist_code)

text \<open>
  C8, amended. \<^verbatim>\<open>update_client_data\<close> changes nothing on a unit that is not
  the leader. On the leader it sets the readiness status, and writes nothing more
  unless that status is an active status. When it is, the clients are taken in turn:
  a client whose password is empty, or is not in the joined jaas file when its turn
  comes, is skipped and the world stays as it is; for any other client the relation
  data of that client is written, and then holds the endpoints, the tls flag, the
  username, the password and the database of the client.
\<close>

theorem client_data_published_when_ready:
  "(\<not> is_leader e w \<longrightarrow> update_client_data e w = w)
   \<and> (is_leader e w \<and> \<not> is_ActiveStatus (status_value e (ready e w))
        \<longrightarrow> update_client_data e w = set_status e (ready e w) w)
   \<and> (is_leader e w \<and> is_ActiveStatus (status_value e (ready e w))
        \<longrightarrow> (let w1 = set_status e (ready e w) w; cs = clients e w1
             in update_client_data e w = update_each_client e cs w1
                \<and> (\<forall>i < length cs.
                      let v = update_each_client e (take i cs) w1;
                          c = cs ! i;
                          v' = update_each_client e (take (Suc i) cs) w1
                      in if password c = [] \<or> \<not> sublist (password c) (concat (current_jaas e v))
                         then v' = v
                         else v' = write_client c (client_items c) v
                              \<and> bag_get (client_data v' (relation_id c)) ''endpoints'' = endpoints c
                              \<and> bag_get (client_data v' (relation_id c)) ''tls'' = tls c
                              \<and> bag_get (client_data v' (relation_id c)) ''username'' = username c
                              \<and> bag_get (client_data v' (relation_id c)) ''password'' = password c
                              \<and> bag_get (client_data v' (relation_id c)) ''database'' = database c)))"
proof (intro conjI impI)
  assume "\<not> is_leader e w"
  then show "update_client_data e w = w" by (simp add: update_client_data_def)
next
  assume "is_leader e w \<and> \<not> is_ActiveStatus (status_value e (ready e w))"
  then show "update_client_data e w = set_status e (ready e w) w"
    by (simp add: update_client_data_def Let_def)
next
  assume ready: "is_leader e w \<and> is_ActiveStatus (status_value e (ready e w))"
  define w1 where "w1 = set_status e (ready e w) w"
  define cs where "cs = clients e w1"
  have run: "update_client_data e w = update_each_client e cs w1"
    using ready by (simp add: update_client_data_def Let_def w1_def cs_def)
  have turn: "let v = update_each_client e (take i cs) w1;
                  c = cs ! i;
                  v' = update_each_client e (take (Suc i) cs) w1
              in if password c = [] \<or> \<not> sublist (password c) (concat (current_jaas e v))
                 then v' = v
                 else v' = write_client c (client_items c) v
                      \<and> bag_get (client_data v' (relation_id c)) ''endpoints'' = endpoints c
                      \<and> bag_get (client_data v' (relation_id c)) ''tls'' = tls c
                      \<and> bag_get (client_data v' (relation_id c)) ''username'' = username c
                      \<and> bag_get (client_data v' (relation_id c)) ''password'' = password c
                      \<and> bag_get (client_data v' (relation_id c)) ''database'' = database c"
    if "i < length cs" for i
  proof (cases "client_acls_not_set e (update_each_client e (take i cs) w1) (cs ! i)")
    case True
    with update_each_client_turn [OF that, of e w1] show ?thesis
      by (simp add: Let_def client_acls_not_set_def)
  next
    case False
    with update_each_client_turn [OF that, of e w1]
    have "update_each_client e (take (Suc i) cs) w1
        = write_client (cs ! i) (client_items (cs ! i)) (update_each_client e (take i cs) w1)"
      by (simp add: Let_def)
    with False show ?thesis
      by (simp only: Let_def published_entries) (simp add: client_acls_not_set_def)
  qed
  from run turn show "let w1 = set_status e (ready e w) w; cs = clients e w1
      in update_client_data e w = update_each_client e cs w1
         \<and> (\<forall>i < length cs.
               let v = update_each_client e (take i cs) w1;
                   c = cs ! i;
                   v' = update_each_client e (take (Suc i) cs) w1
               in if password c = [] \<or> \<not> sublist (password c) (concat (current_jaas e v))
                  then v' = v
                  else v' = write_client c (client_items c) v
                       \<and> bag_get (client_data v' (relation_id c)) ''endpoints'' = endpoints c
                       \<and> bag_get (client_data v' (relation_id c)) ''tls'' = tls c
                       \<and> bag_get (client_data v' (relation_id c)) ''username'' = username c
                       \<and> bag_get (client_data v' (relation_id c)) ''password'' = password c
                       \<and> bag_get (client_data v' (relation_id c)) ''database'' = database c)"
    unfolding w1_def [symmetric] cs_def [symmetric] Let_def by blast
qed

theorem client_data_published_when_ready_witness:
  "update_client_data follower_env running_world = running_world
   \<and> update_client_data unready_env running_world
       = set_status unready_env (OtherStatus ''NOT_ALL_ADDED'') running_world
   \<and> bag_get (client_data (update_client_data serving_env running_world) 7) ''password''
       = ''pa55word''
   \<and> bag_get (client_data (update_client_data serving_env running_world) 7) ''endpoints''
       = ''zookeeper-k8s-0:2181''"
  using client_data_published_when_ready [of follower_env running_world]
        client_data_published_when_ready [of unready_env running_world]
        client_data_published_when_ready [of serving_env running_world]
  by (simp add: follower_env_def unready_env_def serving_env_def calm_env_def status_table_def
      kafka_client_def client_acls_not_set_def client_items_def bag_get_def Let_def sublist_code)

section \<open>Reconciling twice\<close>























lemma steady_moved: "steady moved_env"
  by (simp add: steady_def answers_def moved_env_def follower_env_def calm_env_def)




end
